theory Spec2Isabelle
  imports Main
begin

section \<open>The FUSB30x I2C driver: attach (probe) and detach (remove)\<close>

text \<open>
  The development embeds \<^verbatim>\<open>fusb30x_probe\<close> and \<^verbatim>\<open>fusb30x_remove\<close> of
  \<^verbatim>\<open>fusb30x_driver.c\<close>. Both functions are straight-line sequences of calls into the
  kernel and into the platform helpers (\<^verbatim>\<open>platform_helpers.h\<close>, \<^verbatim>\<open>core.h\<close>), with early
  returns. The helpers are not part of the file: what they answer is a parameter of the
  model (the record \<open>probe_env\<close>), and every call is recorded, in program order, in the
  \<open>calls\<close> component of the state. The three teardown helpers, whose results the source
  does not look at, are modelled from the spec.
\<close>

subsection \<open>Data\<close>

text \<open>A non-null pointer value; a C pointer that may be \<^verbatim>\<open>NULL\<close> is an \<open>addr option\<close>.\<close>

type_synonym addr = nat

text \<open>\<^verbatim>\<open>struct mutex\<close> as far as the driver file sees it: zeroed memory, or initialised.\<close>

datatype mutex = Mutex_Zeroed | Mutex_Unlocked

text \<open>The two members of \<^verbatim>\<open>struct fusb30x_chip\<close> that the file touches.\<close>

record fusb30x_chip =
  chip_client :: "addr option"
  chip_lock :: mutex

text \<open>What \<^verbatim>\<open>devm_kzalloc\<close> hands out: every member zero.\<close>

definition zeroed_chip :: fusb30x_chip where
  "zeroed_chip = \<lparr>chip_client = None, chip_lock = Mutex_Zeroed\<rparr>"

text \<open>The functions called by probe and remove, one constructor per callee.\<close>

datatype kcall =
    Of_match_device
  | I2c_check_functionality
  | I2c_get_functionality
  | Devm_kzalloc
  | Fusb30x_SetChip
  | Fusb30x_GetChip
  | Mutex_init
  | Fusb_InitChipData
  | I2c_set_clientdata
  | Fusb_IsDeviceValid
  | Fusb_InitializeGPIO
  | Fusb_InitializeWorkers
  | Fusb_InitializeTimer
  | Fusb_Sysfs_Init
  | Fusb_InitializeCore
  | Fusb_ScheduleWork
  | I2c_get_clientdata
  | Fusb_StopTimers
  | Fusb_StopThreads
  | Fusb_GPIO_Cleanup

datatype loglevel = KERN_ALERT | KERN_DEBUG | DEV_INFO | DEV_ERR

text \<open>
  The state the two functions read and write:
  \<^item> \<open>g_chip\<close>: the global chip pointer behind \<^verbatim>\<open>fusb30x_SetChip\<close>/\<^verbatim>\<open>fusb30x_GetChip\<close>
    (``Set our global chip's address to the newly allocated memory'');
  \<^item> \<open>chips\<close>: the device-managed memory holding chip structures;
  \<^item> \<open>clientdata\<close>: the driver data of each client (\<^verbatim>\<open>i2c_set_clientdata\<close>);
  \<^item> \<open>calls\<close>: the callees invoked so far, oldest first;
  \<^item> \<open>klog\<close>: the lines the two functions themselves write to the kernel log, oldest
    first, each with its format string;
  \<^item> \<open>release_status\<close>: the condition of the platform at teardown: for each teardown
    helper, the status its release ends with inside the helper (0 when it releases
    cleanly). The driver file neither reads nor writes it;
  \<^item> \<open>release_log\<close>: the release failures the teardown helpers have written to the
    kernel log, oldest first, each with the helper and the status.
\<close>

record driver_state =
  g_chip :: "addr option"
  chips :: "addr \<rightharpoonup> fusb30x_chip"
  clientdata :: "addr \<rightharpoonup> addr"
  calls :: "kcall list"
  klog :: "(loglevel \<times> string) list"
  release_status :: "kcall \<Rightarrow> int"
  release_log :: "(kcall \<times> int) list"

text \<open>
  What the callees of one probe invocation answer: whether \<^verbatim>\<open>of_match_device\<close> finds a
  match, whether \<^verbatim>\<open>i2c_check_functionality\<close> holds, the pointer \<^verbatim>\<open>devm_kzalloc\<close> returns
  (\<open>None\<close> is \<^verbatim>\<open>NULL\<close>), the answer of \<^verbatim>\<open>fusb_IsDeviceValid\<close>, and the return value of
  \<^verbatim>\<open>fusb_InitializeGPIO\<close>.
\<close>

record probe_env =
  dt_match :: bool
  i2c_func_ok :: bool
  kzalloc_result :: "addr option"
  device_valid :: bool
  gpio_ret :: int

text \<open>The errno values of \<^verbatim>\<open><linux/errno.h>\<close> that the file returns, negated.\<close>

definition EIO :: int where "EIO = 5"
definition ENOMEM :: int where "ENOMEM = 12"
definition EINVAL :: int where "EINVAL = 22"

subsection \<open>Primitive steps\<close>

definition called :: "kcall \<Rightarrow> driver_state \<Rightarrow> driver_state" where
  "called k s = s\<lparr>calls := calls s @ [k]\<rparr>"

definition printk :: "loglevel \<Rightarrow> string \<Rightarrow> driver_state \<Rightarrow> driver_state" where
  "printk lvl msg s = s\<lparr>klog := klog s @ [(lvl, msg)]\<rparr>"

text \<open>\<^verbatim>\<open>chip->client = client\<close>, on the structure at address \<open>a\<close>.\<close>

definition assign_client :: "addr \<Rightarrow> addr \<Rightarrow> driver_state \<Rightarrow> driver_state" where
  "assign_client a c s =
     s\<lparr>chips := (\<lambda>p. if p = a then map_option (\<lambda>ch. ch\<lparr>chip_client := Some c\<rparr>) (chips s p)
                         else chips s p)\<rparr>"

text \<open>\<^verbatim>\<open>mutex_init(&chip->lock)\<close>, on the structure at address \<open>a\<close>.\<close>

definition mutex_init :: "addr \<Rightarrow> driver_state \<Rightarrow> driver_state" where
  "mutex_init a s =
     called Mutex_init
       (s\<lparr>chips := (\<lambda>p. if p = a then map_option (\<lambda>ch. ch\<lparr>chip_lock := Mutex_Unlocked\<rparr>) (chips s p)
                           else chips s p)\<rparr>)"

definition devm_kzalloc :: "addr \<Rightarrow> driver_state \<Rightarrow> driver_state" where
  "devm_kzalloc a s = called Devm_kzalloc (s\<lparr>chips := (chips s)(a \<mapsto> zeroed_chip)\<rparr>)"

definition fusb30x_SetChip :: "addr \<Rightarrow> driver_state \<Rightarrow> driver_state" where
  "fusb30x_SetChip a s = called Fusb30x_SetChip (s\<lparr>g_chip := Some a\<rparr>)"

definition i2c_set_clientdata :: "addr \<Rightarrow> addr \<Rightarrow> driver_state \<Rightarrow> driver_state" where
  "i2c_set_clientdata c a s = called I2c_set_clientdata (s\<lparr>clientdata := (clientdata s)(c \<mapsto> a)\<rparr>)"

subsection \<open>Teardown helpers\<close>

text \<open>
  Modelled from the spec: the bodies of the teardown helpers \<^verbatim>\<open>fusb_StopTimers\<close>,
  \<^verbatim>\<open>fusb_StopThreads\<close> and \<^verbatim>\<open>fusb_GPIO_Cleanup\<close> are missing (the driver file only
  calls them, through \<^verbatim>\<open>platform_helpers.h\<close>). The spec says of them that ``underlying
  resource-release failures are logged, not propagated'': a helper whose release fails
  writes the failure to the log, and hands nothing back to its caller.
\<close>

definition teardown_helper :: "kcall \<Rightarrow> driver_state \<Rightarrow> driver_state" where
  "teardown_helper k s =
     (let s1 = called k s
      in if release_status s1 k \<noteq> 0
         then s1\<lparr>release_log := release_log s1 @ [(k, release_status s1 k)]\<rparr>
         else s1)"

text \<open>Modelled from the spec: \<^verbatim>\<open>fusb_StopTimers\<close>, missing, as a teardown helper.\<close>

definition fusb_StopTimers :: "driver_state \<Rightarrow> driver_state" where
  "fusb_StopTimers = teardown_helper Fusb_StopTimers"

text \<open>Modelled from the spec: \<^verbatim>\<open>fusb_StopThreads\<close>, missing, as a teardown helper.\<close>

definition fusb_StopThreads :: "driver_state \<Rightarrow> driver_state" where
  "fusb_StopThreads = teardown_helper Fusb_StopThreads"

text \<open>Modelled from the spec: \<^verbatim>\<open>fusb_GPIO_Cleanup\<close>, missing, as a teardown helper.\<close>

definition fusb_GPIO_Cleanup :: "driver_state \<Rightarrow> driver_state" where
  "fusb_GPIO_Cleanup = teardown_helper Fusb_GPIO_Cleanup"

subsection \<open>Attach\<close>

text \<open>
  \<^verbatim>\<open>fusb30x_probe\<close>, statement by statement. The result pairs the returned \<^verbatim>\<open>int\<close>
  with the state left behind. The \<^verbatim>\<open>id\<close> argument is never read by the source and is
  omitted.
\<close>

definition fusb30x_probe :: "addr option \<Rightarrow> probe_env \<Rightarrow> driver_state \<Rightarrow> int \<times> driver_state" where
  "fusb30x_probe client e s0 =
    (case client of
       None \<Rightarrow> (- EINVAL, printk KERN_ALERT ''FUSB  %s - Error: Client structure is NULL!\<newline>'' s0)
     | Some c \<Rightarrow>
        let s1 = printk DEV_INFO ''%s\<newline>'' s0;
            s2 = called Of_match_device s1
        in if \<not> dt_match e
           then (- EINVAL, printk DEV_ERR ''FUSB  %s - Error: Device tree mismatch!\<newline>'' s2)
           else
        let s3 = printk KERN_DEBUG ''FUSB  %s - Device tree matched!\<newline>'' s2;
            s4 = called I2c_check_functionality s3
        in if \<not> i2c_func_ok e
           then
             let s5 = printk DEV_ERR ''FUSB  %s - Error: Required I2C/SMBus functionality not supported! Driver required func. mask: 0x%x\<newline>'' s4;
                 s6 = called I2c_get_functionality s5;
                 s7 = printk DEV_ERR ''FUSB  %s - I2C Supported Functionality Mask: 0x%x\<newline>'' s6
             in (- EIO, s7)
           else
        let s5 = printk KERN_DEBUG ''FUSB  %s - I2C Functionality check passed!\<newline>'' s4
        in case kzalloc_result e of
             None \<Rightarrow>
               (- ENOMEM,
                printk DEV_ERR ''FUSB  %s - Error: Unable to allocate memory for g_chip!\<newline>''
                  (called Devm_kzalloc s5))
           | Some chip \<Rightarrow>
        let s6 = devm_kzalloc chip s5;
            s7 = assign_client chip c s6;
            s8 = fusb30x_SetChip chip s7;
            s9 = called Fusb30x_GetChip s8;
            s10 = printk KERN_DEBUG ''FUSB  %s - Chip structure is set! Chip: %p ... g_chip: %p\<newline>'' s9;
            s11 = mutex_init chip s10;
            s12 = called Fusb_InitChipData s11;
            s13 = printk KERN_DEBUG ''FUSB  %s - Chip struct data initialized!\<newline>'' s12;
            s14 = i2c_set_clientdata c chip s13;
            s15 = printk KERN_DEBUG ''FUSB  %s - I2C client data set!\<newline>'' s14;
            s16 = called Fusb_IsDeviceValid s15
        in if \<not> device_valid e
           then (- EIO, printk DEV_ERR ''FUSB  %s - Error: Unable to communicate with device!\<newline>'' s16)
           else
        let s17 = printk KERN_DEBUG ''FUSB  %s - Device check passed!\<newline>'' s16;
            s18 = called Fusb_InitializeGPIO s17;
            ret = gpio_ret e
        in if ret \<noteq> 0
           then (ret, printk DEV_ERR ''FUSB  %s - Error: Unable to initialize GPIO!\<newline>'' s18)
           else
        let s19 = printk KERN_DEBUG ''FUSB  %s - GPIO initialized!\<newline>'' s18;
            s20 = called Fusb_InitializeWorkers s19;
            s21 = printk KERN_DEBUG ''FUSB  %s - Workers initialized!\<newline>'' s20;
            s22 = called Fusb_InitializeTimer s21;
            s23 = printk KERN_DEBUG ''FUSB  %s - Timers initialized!\<newline>'' s22;
            s24 = called Fusb_Sysfs_Init s23;
            s25 = printk KERN_DEBUG ''FUSB  %s - Sysfs device file created!\<newline>'' s24;
            s26 = called Fusb_InitializeCore s25;
            s27 = printk KERN_DEBUG ''FUSB  %s - Core is initialized!\<newline>'' s26;
            s28 = called Fusb_ScheduleWork s27;
            s29 = printk DEV_INFO ''FUSB  %s - FUSB30X Driver loaded successfully!\<newline>'' s28
        in (ret, s29))"

subsection \<open>Detach\<close>

text \<open>
  \<^verbatim>\<open>fusb30x_remove\<close>. The i2c core passes the client it bound, and the source uses it
  unchecked, so the argument is a client address. The local \<^verbatim>\<open>chip\<close> receives the
  client's driver data and is not used afterwards. The three teardown helpers are called
  as statements: nothing comes back from them.
\<close>

definition fusb30x_remove :: "addr \<Rightarrow> driver_state \<Rightarrow> int \<times> driver_state" where
  "fusb30x_remove client s0 =
    (let s1 = printk KERN_DEBUG ''FUSB  %s - Removing fusb30x device!\<newline>'' s0;
         s2 = called I2c_get_clientdata s1;
         chip = clientdata s2 client;
         s3 = fusb_StopTimers s2;
         s4 = fusb_StopThreads s3;
         s5 = fusb_GPIO_Cleanup s4;
         s6 = printk KERN_DEBUG ''FUSB  %s - FUSB30x device removed from driver...\<newline>'' s5
     in (0, s6))"

subsection \<open>Vocabulary for the statements\<close>

text \<open>The callees invoked between state \<open>s\<close> and the later state \<open>s'\<close>.\<close>

definition new_calls :: "driver_state \<Rightarrow> driver_state \<Rightarrow> kcall list" where
  "new_calls s s' = drop (length (calls s)) (calls s')"

text \<open>Some occurrence of \<open>x\<close> lies strictly before some occurrence of \<open>y\<close>.\<close>

fun precedes :: "'a \<Rightarrow> 'a \<Rightarrow> 'a list \<Rightarrow> bool" where
  "precedes x y [] = False"
| "precedes x y (z # zs) = ((z = x \<and> y \<in> set zs) \<or> precedes x y zs)"

text \<open>An environment in which every check of probe passes, allocating at \<open>a\<close>.\<close>

definition env_ok :: "addr \<Rightarrow> probe_env" where
  "env_ok a = \<lparr>dt_match = True, i2c_func_ok = True, kzalloc_result = Some a,
              device_valid = True, gpio_ret = 0\<rparr>"

text \<open>The state before any device was attached.\<close>

definition init_state :: driver_state where
  "init_state = \<lparr>g_chip = None, chips = Map.empty, clientdata = Map.empty, calls = [], klog = [],
                  release_status = (\<lambda>k. 0), release_log = []\<rparr>"

lemmas step_defs =
  called_def printk_def assign_client_def mutex_init_def devm_kzalloc_def
  fusb30x_SetChip_def i2c_set_clientdata_def zeroed_chip_def


subsection \<open>Selectors through the primitive steps\<close>

lemma called_sel:
  "g_chip (called k s) = g_chip s" "chips (called k s) = chips s"
  "clientdata (called k s) = clientdata s" "calls (called k s) = calls s @ [k]"
  "klog (called k s) = klog s"
  by (simp_all add: called_def)

lemma printk_sel:
  "g_chip (printk l m s) = g_chip s" "chips (printk l m s) = chips s"
  "clientdata (printk l m s) = clientdata s" "calls (printk l m s) = calls s"
  "klog (printk l m s) = klog s @ [(l, m)]"
  by (simp_all add: printk_def)

lemma assign_client_sel:
  "g_chip (assign_client a c s) = g_chip s"
  "chips (assign_client a c s) =
     (\<lambda>p. if p = a then map_option (\<lambda>ch. ch\<lparr>chip_client := Some c\<rparr>) (chips s p) else chips s p)"
  "clientdata (assign_client a c s) = clientdata s" "calls (assign_client a c s) = calls s"
  "klog (assign_client a c s) = klog s"
  by (simp_all add: assign_client_def)

lemma mutex_init_sel:
  "g_chip (mutex_init a s) = g_chip s"
  "chips (mutex_init a s) =
     (\<lambda>p. if p = a then map_option (\<lambda>ch. ch\<lparr>chip_lock := Mutex_Unlocked\<rparr>) (chips s p) else chips s p)"
  "clientdata (mutex_init a s) = clientdata s" "calls (mutex_init a s) = calls s @ [Mutex_init]"
  "klog (mutex_init a s) = klog s"
  by (simp_all add: mutex_init_def called_def)

lemma devm_kzalloc_sel:
  "g_chip (devm_kzalloc a s) = g_chip s"
  "chips (devm_kzalloc a s) = (chips s)(a \<mapsto> zeroed_chip)"
  "clientdata (devm_kzalloc a s) = clientdata s"
  "calls (devm_kzalloc a s) = calls s @ [Devm_kzalloc]"
  "klog (devm_kzalloc a s) = klog s"
  by (simp_all add: devm_kzalloc_def called_def)

lemma fusb30x_SetChip_sel:
  "g_chip (fusb30x_SetChip a s) = Some a" "chips (fusb30x_SetChip a s) = chips s"
  "clientdata (fusb30x_SetChip a s) = clientdata s"
  "calls (fusb30x_SetChip a s) = calls s @ [Fusb30x_SetChip]"
  "klog (fusb30x_SetChip a s) = klog s"
  by (simp_all add: fusb30x_SetChip_def called_def)

lemma i2c_set_clientdata_sel:
  "g_chip (i2c_set_clientdata c a s) = g_chip s" "chips (i2c_set_clientdata c a s) = chips s"
  "clientdata (i2c_set_clientdata c a s) = (clientdata s)(c \<mapsto> a)"
  "calls (i2c_set_clientdata c a s) = calls s @ [I2c_set_clientdata]"
  "klog (i2c_set_clientdata c a s) = klog s"
  by (simp_all add: i2c_set_clientdata_def called_def)

lemmas step_sel =
  called_sel printk_sel assign_client_sel mutex_init_sel devm_kzalloc_sel
  fusb30x_SetChip_sel i2c_set_clientdata_sel

lemma teardown_helper_sel:
  "g_chip (teardown_helper k s) = g_chip s" "chips (teardown_helper k s) = chips s"
  "clientdata (teardown_helper k s) = clientdata s"
  "calls (teardown_helper k s) = calls s @ [k]"
  "klog (teardown_helper k s) = klog s"
  "release_status (teardown_helper k s) = release_status s"
  "release_log (teardown_helper k s) =
     release_log s @ (if release_status s k \<noteq> 0 then [(k, release_status s k)] else [])"
  by (simp_all add: teardown_helper_def called_def Let_def)

lemma called_sel_release:
  "release_status (called k s) = release_status s" "release_log (called k s) = release_log s"
  "release_status (printk l m s) = release_status s" "release_log (printk l m s) = release_log s"
  by (simp_all add: called_def printk_def)

lemmas remove_sel =
  called_sel printk_sel called_sel_release teardown_helper_sel
  fusb_StopTimers_def fusb_StopThreads_def fusb_GPIO_Cleanup_def

subsection \<open>Detach: order of teardown and result\<close>

lemma remove_calls:
  "calls (snd (fusb30x_remove c s)) =
     calls s @ [I2c_get_clientdata, Fusb_StopTimers, Fusb_StopThreads, Fusb_GPIO_Cleanup]"
  by (simp add: fusb30x_remove_def remove_sel Let_def)

lemma remove_new_calls:
  "new_calls s (snd (fusb30x_remove c s)) =
     [I2c_get_clientdata, Fusb_StopTimers, Fusb_StopThreads, Fusb_GPIO_Cleanup]"
  by (simp add: new_calls_def remove_calls)

text \<open>
  C4. Every detach stops the timers first, then the worker threads, then releases the
  GPIO resources: the calls of one \<^verbatim>\<open>fusb30x_remove\<close> are, in this order, the read of the
  client data, \<^verbatim>\<open>fusb_StopTimers\<close>, \<^verbatim>\<open>fusb_StopThreads\<close>, \<^verbatim>\<open>fusb_GPIO_Cleanup\<close>, and nothing else.
\<close>

theorem remove_teardown_order:
  "new_calls s (snd (fusb30x_remove c s)) =
     [I2c_get_clientdata, Fusb_StopTimers, Fusb_StopThreads, Fusb_GPIO_Cleanup]
   \<and> precedes Fusb_StopTimers Fusb_StopThreads (new_calls s (snd (fusb30x_remove c s)))
   \<and> precedes Fusb_StopThreads Fusb_GPIO_Cleanup (new_calls s (snd (fusb30x_remove c s)))"
  by (simp add: remove_new_calls)


text \<open>
  C6. Detach never reports failure: \<^verbatim>\<open>fusb30x_remove\<close> has one path, which makes all
  three teardown calls, writes its closing log line and returns 0, for every client and
  every state, whatever the releases inside the helpers end with. Every release that
  fails is in the log afterwards, in the order of the teardown, and no other release is.
\<close>

theorem remove_always_succeeds:
  "fst (fusb30x_remove c s) = 0
   \<and> new_calls s (snd (fusb30x_remove c s)) =
       [I2c_get_clientdata, Fusb_StopTimers, Fusb_StopThreads, Fusb_GPIO_Cleanup]
   \<and> last (klog (snd (fusb30x_remove c s))) =
       (KERN_DEBUG, ''FUSB  %s - FUSB30x device removed from driver...\<newline>'')
   \<and> release_log (snd (fusb30x_remove c s)) =
       release_log s @
       filter (\<lambda>(k, st). st \<noteq> 0)
         [(Fusb_StopTimers, release_status s Fusb_StopTimers),
          (Fusb_StopThreads, release_status s Fusb_StopThreads),
          (Fusb_GPIO_Cleanup, release_status s Fusb_GPIO_Cleanup)]"
  by (simp add: remove_new_calls) (simp add: fusb30x_remove_def remove_sel Let_def)

theorem remove_always_succeeds_witness:
  "fst (fusb30x_remove 1
      ((snd (fusb30x_probe (Some 1) (env_ok 5) init_state))
         \<lparr>release_status := (\<lambda>k. if k = Fusb_GPIO_Cleanup then - 16 else 0)\<rparr>)) = 0
   \<and> release_log (snd (fusb30x_remove 1
      ((snd (fusb30x_probe (Some 1) (env_ok 5) init_state))
         \<lparr>release_status := (\<lambda>k. if k = Fusb_GPIO_Cleanup then - 16 else 0)\<rparr>)))
      = release_log (snd (fusb30x_probe (Some 1) (env_ok 5) init_state))
        @ [(Fusb_GPIO_Cleanup, - 16)]"
  using remove_always_succeeds [of 1
      "(snd (fusb30x_probe (Some 1) (env_ok 5) init_state))
         \<lparr>release_status := (\<lambda>k. if k = Fusb_GPIO_Cleanup then - 16 else 0)\<rparr>"]
  by simp

text \<open>
  C10. Detach reads the client's driver data into \<^verbatim>\<open>chip\<close> and never uses it: the
  result and the teardown calls are the same for any two clients in any two states, in
  particular for a client whose driver data is \<^verbatim>\<open>NULL\<close>, and the chip pointer, the chip
  memory and the driver data are left as they were.
\<close>

theorem remove_ignores_chip:
  "fst (fusb30x_remove c s) = fst (fusb30x_remove c' s')
   \<and> new_calls s (snd (fusb30x_remove c s)) = new_calls s' (snd (fusb30x_remove c' s'))
   \<and> fst (fusb30x_remove c (s\<lparr>clientdata := (clientdata s)(c := None)\<rparr>)) = 0
   \<and> new_calls (s\<lparr>clientdata := (clientdata s)(c := None)\<rparr>)
        (snd (fusb30x_remove c (s\<lparr>clientdata := (clientdata s)(c := None)\<rparr>)))
      = [I2c_get_clientdata, Fusb_StopTimers, Fusb_StopThreads, Fusb_GPIO_Cleanup]
   \<and> g_chip (snd (fusb30x_remove c s)) = g_chip s
   \<and> chips (snd (fusb30x_remove c s)) = chips s
   \<and> clientdata (snd (fusb30x_remove c s)) = clientdata s"
  by (simp add: remove_new_calls) (simp add: fusb30x_remove_def remove_sel Let_def)

subsection \<open>Attach: helper facts\<close>


lemma probe_calls:
  "calls (snd (fusb30x_probe client e s)) = calls s @
     (case client of
        None \<Rightarrow> []
      | Some c \<Rightarrow>
          if \<not> dt_match e then [Of_match_device]
          else if \<not> i2c_func_ok e
            then [Of_match_device, I2c_check_functionality, I2c_get_functionality]
          else (case kzalloc_result e of
                  None \<Rightarrow> [Of_match_device, I2c_check_functionality, Devm_kzalloc]
                | Some a \<Rightarrow>
                    [Of_match_device, I2c_check_functionality, Devm_kzalloc, Fusb30x_SetChip,
                     Fusb30x_GetChip, Mutex_init, Fusb_InitChipData, I2c_set_clientdata,
                     Fusb_IsDeviceValid] @
                    (if \<not> device_valid e then []
                     else Fusb_InitializeGPIO #
                       (if gpio_ret e \<noteq> 0 then []
                        else [Fusb_InitializeWorkers, Fusb_InitializeTimer, Fusb_Sysfs_Init,
                              Fusb_InitializeCore, Fusb_ScheduleWork]))))"
  by (simp add: fusb30x_probe_def Let_def step_sel split: option.splits)

lemma probe_g_chip:
  "g_chip (snd (fusb30x_probe client e s)) =
     (case client of
        None \<Rightarrow> g_chip s
      | Some c \<Rightarrow>
          if dt_match e \<and> i2c_func_ok e
          then (case kzalloc_result e of None \<Rightarrow> g_chip s | Some a \<Rightarrow> Some a)
          else g_chip s)"
  by (simp add: fusb30x_probe_def Let_def step_sel split: option.splits)

lemma probe_clientdata:
  "clientdata (snd (fusb30x_probe client e s)) =
     (case client of
        None \<Rightarrow> clientdata s
      | Some c \<Rightarrow>
          if dt_match e \<and> i2c_func_ok e
          then (case kzalloc_result e of None \<Rightarrow> clientdata s | Some a \<Rightarrow> (clientdata s)(c \<mapsto> a))
          else clientdata s)"
  by (simp add: fusb30x_probe_def Let_def step_sel split: option.splits)

lemma probe_chips:
  "chips (snd (fusb30x_probe client e s)) =
     (case client of
        None \<Rightarrow> chips s
      | Some c \<Rightarrow>
          if dt_match e \<and> i2c_func_ok e
          then (case kzalloc_result e of
                  None \<Rightarrow> chips s
                | Some a \<Rightarrow> (chips s)(a \<mapsto> \<lparr>chip_client = Some c, chip_lock = Mutex_Unlocked\<rparr>))
          else chips s)"
  by (simp add: fusb30x_probe_def Let_def step_sel zeroed_chip_def fun_eq_iff split: option.splits)


lemma probe_ret:
  "fst (fusb30x_probe client e s) =
     (case client of
        None \<Rightarrow> - EINVAL
      | Some c \<Rightarrow>
          if \<not> dt_match e then - EINVAL
          else if \<not> i2c_func_ok e then - EIO
          else (case kzalloc_result e of
                  None \<Rightarrow> - ENOMEM
                | Some a \<Rightarrow> if \<not> device_valid e then - EIO else gpio_ret e))"
  by (simp add: fusb30x_probe_def Let_def split: option.splits)

lemma probe_ret_zero:
  "fst (fusb30x_probe client e s) = 0 \<longleftrightarrow>
     client \<noteq> None \<and> dt_match e \<and> i2c_func_ok e \<and> kzalloc_result e \<noteq> None
     \<and> device_valid e \<and> gpio_ret e = 0"
  by (auto simp: probe_ret EINVAL_def EIO_def ENOMEM_def split: option.splits)

lemma probe_success_calls:
  "fst (fusb30x_probe client e s) = 0 \<Longrightarrow>
   calls (snd (fusb30x_probe client e s)) =
     calls s @ [Of_match_device, I2c_check_functionality, Devm_kzalloc, Fusb30x_SetChip,
                Fusb30x_GetChip, Mutex_init, Fusb_InitChipData, I2c_set_clientdata,
                Fusb_IsDeviceValid, Fusb_InitializeGPIO, Fusb_InitializeWorkers,
                Fusb_InitializeTimer, Fusb_Sysfs_Init, Fusb_InitializeCore, Fusb_ScheduleWork]"
  unfolding probe_ret_zero
  by (auto simp: fusb30x_probe_def Let_def step_defs)

text \<open>
  C3. A successful attach makes its calls in one fixed order: compatibility check, bus
  capability check, allocation, lock initialisation, chip data, identity check, GPIO,
  workers, timers, sysfs, core, and last the start of the workers. Between these the
  source also registers the chip (global pointer and client data); leaving those
  registration calls out gives exactly the sequence of the claim.
\<close>

theorem probe_success_order:
  "fst (fusb30x_probe client e s) = 0 \<Longrightarrow>
     new_calls s (snd (fusb30x_probe client e s)) =
       [Of_match_device, I2c_check_functionality, Devm_kzalloc, Fusb30x_SetChip,
        Fusb30x_GetChip, Mutex_init, Fusb_InitChipData, I2c_set_clientdata,
        Fusb_IsDeviceValid, Fusb_InitializeGPIO, Fusb_InitializeWorkers,
        Fusb_InitializeTimer, Fusb_Sysfs_Init, Fusb_InitializeCore, Fusb_ScheduleWork]
     \<and> filter (\<lambda>k. k \<noteq> Fusb30x_SetChip \<and> k \<noteq> Fusb30x_GetChip \<and> k \<noteq> I2c_set_clientdata)
         (new_calls s (snd (fusb30x_probe client e s))) =
       [Of_match_device, I2c_check_functionality, Devm_kzalloc, Mutex_init,
        Fusb_InitChipData, Fusb_IsDeviceValid, Fusb_InitializeGPIO,
        Fusb_InitializeWorkers, Fusb_InitializeTimer, Fusb_Sysfs_Init,
        Fusb_InitializeCore, Fusb_ScheduleWork]
     \<and> last (new_calls s (snd (fusb30x_probe client e s))) = Fusb_ScheduleWork
     \<and> Fusb_ScheduleWork \<notin> set (butlast (new_calls s (snd (fusb30x_probe client e s))))"
  using probe_success_calls [of client e s] by (simp add: new_calls_def)

theorem probe_success_order_witness:
  "fst (fusb30x_probe (Some 1) (env_ok 5) init_state) = 0
   \<and> new_calls init_state (snd (fusb30x_probe (Some 1) (env_ok 5) init_state)) =
           [Of_match_device, I2c_check_functionality, Devm_kzalloc, Fusb30x_SetChip,
            Fusb30x_GetChip, Mutex_init, Fusb_InitChipData, I2c_set_clientdata,
            Fusb_IsDeviceValid, Fusb_InitializeGPIO, Fusb_InitializeWorkers,
            Fusb_InitializeTimer, Fusb_Sysfs_Init, Fusb_InitializeCore, Fusb_ScheduleWork]
   \<and> last (new_calls init_state (snd (fusb30x_probe (Some 1) (env_ok 5) init_state)))
       = Fusb_ScheduleWork"
proof -
  have h: "fst (fusb30x_probe (Some 1) (env_ok 5) init_state) = 0"
    by (simp add: probe_ret env_ok_def)
  show ?thesis
    using h probe_success_order [OF h] by simp
qed


subsection \<open>Attach: what a failed attempt leaves behind\<close>

lemma probe_early_state:
  "client = None \<or> \<not> dt_match e \<or> \<not> i2c_func_ok e \<or> kzalloc_result e = None \<Longrightarrow>
   g_chip (snd (fusb30x_probe client e s)) = g_chip s
   \<and> chips (snd (fusb30x_probe client e s)) = chips s
   \<and> clientdata (snd (fusb30x_probe client e s)) = clientdata s"
  by (auto simp: probe_g_chip probe_chips probe_clientdata split: option.splits)

lemma probe_late_state:
  "client = Some c \<Longrightarrow> dt_match e \<Longrightarrow> i2c_func_ok e \<Longrightarrow> kzalloc_result e = Some a \<Longrightarrow>
   g_chip (snd (fusb30x_probe client e s)) = Some a
   \<and> chips (snd (fusb30x_probe client e s)) =
       (chips s)(a \<mapsto> \<lparr>chip_client = Some c, chip_lock = Mutex_Unlocked\<rparr>)
   \<and> clientdata (snd (fusb30x_probe client e s)) = (clientdata s)(c \<mapsto> a)"
  by (simp add: probe_g_chip probe_chips probe_clientdata)

lemma probe_failure_calls:
  "fst (fusb30x_probe client e s) \<noteq> 0 \<Longrightarrow>
   set (new_calls s (snd (fusb30x_probe client e s))) \<inter>
     {Fusb_InitializeWorkers, Fusb_InitializeTimer, Fusb_Sysfs_Init, Fusb_InitializeCore,
      Fusb_ScheduleWork, Fusb_StopTimers, Fusb_StopThreads, Fusb_GPIO_Cleanup} = {}"
  by (auto simp: probe_ret probe_calls new_calls_def split: option.splits if_splits)

text \<open>
  C9. An attach attempt that stops at the null check, at the device-tree match or at
  the bus functionality check fails and leaves the global chip pointer, the chip memory
  (and so every chip lock) and the driver data of every client as they were; the only
  callees reached are the three queries, and what is written is the log.
\<close>

theorem probe_early_failure_frame:
  "client = None \<or> \<not> dt_match e \<or> \<not> i2c_func_ok e \<Longrightarrow>
   fst (fusb30x_probe client e s) \<noteq> 0
   \<and> g_chip (snd (fusb30x_probe client e s)) = g_chip s
   \<and> chips (snd (fusb30x_probe client e s)) = chips s
   \<and> clientdata (snd (fusb30x_probe client e s)) = clientdata s
   \<and> set (new_calls s (snd (fusb30x_probe client e s)))
       \<subseteq> {Of_match_device, I2c_check_functionality, I2c_get_functionality}"
  using probe_early_state [of client e s]
  by (auto simp: probe_ret probe_calls new_calls_def EINVAL_def EIO_def split: option.splits)


theorem probe_early_failure_frame_witness:
  "g_chip (snd (fusb30x_probe (Some 1) (env_ok 5) init_state)) = Some 5
   \<and> fst (fusb30x_probe None (env_ok 6) (snd (fusb30x_probe (Some 1) (env_ok 5) init_state))) \<noteq> 0
   \<and> g_chip (snd (fusb30x_probe None (env_ok 6)
         (snd (fusb30x_probe (Some 1) (env_ok 5) init_state)))) = Some 5
   \<and> \<not> dt_match ((env_ok 6)\<lparr>dt_match := False\<rparr>)
   \<and> fst (fusb30x_probe (Some 2) ((env_ok 6)\<lparr>dt_match := False\<rparr>)
         (snd (fusb30x_probe (Some 1) (env_ok 5) init_state))) \<noteq> 0
   \<and> g_chip (snd (fusb30x_probe (Some 2) ((env_ok 6)\<lparr>dt_match := False\<rparr>)
         (snd (fusb30x_probe (Some 1) (env_ok 5) init_state)))) = Some 5
   \<and> clientdata (snd (fusb30x_probe (Some 2) ((env_ok 6)\<lparr>dt_match := False\<rparr>)
         (snd (fusb30x_probe (Some 1) (env_ok 5) init_state)))) 2 = None
   \<and> \<not> i2c_func_ok ((env_ok 6)\<lparr>i2c_func_ok := False\<rparr>)
   \<and> fst (fusb30x_probe (Some 2) ((env_ok 6)\<lparr>i2c_func_ok := False\<rparr>)
         (snd (fusb30x_probe (Some 1) (env_ok 5) init_state))) \<noteq> 0
   \<and> chips (snd (fusb30x_probe (Some 2) ((env_ok 6)\<lparr>i2c_func_ok := False\<rparr>)
         (snd (fusb30x_probe (Some 1) (env_ok 5) init_state)))) 6 = None"
  using probe_early_failure_frame [of None "env_ok 6"
          "snd (fusb30x_probe (Some 1) (env_ok 5) init_state)"]
        probe_early_failure_frame [of "Some 2" "(env_ok 6)\<lparr>dt_match := False\<rparr>"
          "snd (fusb30x_probe (Some 1) (env_ok 5) init_state)"]
        probe_early_failure_frame [of "Some 2" "(env_ok 6)\<lparr>i2c_func_ok := False\<rparr>"
          "snd (fusb30x_probe (Some 1) (env_ok 5) init_state)"]
  by (simp add: probe_g_chip probe_chips probe_clientdata env_ok_def init_state_def)

lemma probe_failure_exact_calls:
  "fst (fusb30x_probe client e s) \<noteq> 0 \<Longrightarrow>
   new_calls s (snd (fusb30x_probe client e s)) =
     (case client of
        None \<Rightarrow> []
      | Some c \<Rightarrow>
          if \<not> dt_match e then [Of_match_device]
          else if \<not> i2c_func_ok e
            then [Of_match_device, I2c_check_functionality, I2c_get_functionality]
          else (case kzalloc_result e of
                  None \<Rightarrow> [Of_match_device, I2c_check_functionality, Devm_kzalloc]
                | Some a \<Rightarrow>
                    if \<not> device_valid e
                    then [Of_match_device, I2c_check_functionality, Devm_kzalloc,
                          Fusb30x_SetChip, Fusb30x_GetChip, Mutex_init, Fusb_InitChipData,
                          I2c_set_clientdata, Fusb_IsDeviceValid]
                    else [Of_match_device, I2c_check_functionality, Devm_kzalloc,
                          Fusb30x_SetChip, Fusb30x_GetChip, Mutex_init, Fusb_InitChipData,
                          I2c_set_clientdata, Fusb_IsDeviceValid, Fusb_InitializeGPIO]))"
  by (auto simp: probe_ret probe_calls new_calls_def split: option.splits if_splits)

text \<open>
  C1, as the source has it. A failed attach stops at the failing step: its calls are
  exactly the calls of the source up to and including the step that failed (the null
  check makes none; the failed functionality check is followed by the query of the
  supported mask for the log), and none after it. It returns a non-zero value, and it
  releases nothing: no teardown helper is called. When it fails before the chip structure
  exists (null handle, device-tree mismatch, missing bus functionality, failed
  allocation), the global chip pointer, the chip memory and the driver data are as
  before. When it fails after that (identity check, GPIO initialisation), the new chip
  structure stays in the device-managed memory with its lock initialised, and the global
  chip pointer and the client's driver data stay set to it.
\<close>

theorem probe_failure_no_unwind:
  "fst (fusb30x_probe client e s) \<noteq> 0 \<Longrightarrow>
   new_calls s (snd (fusb30x_probe client e s)) =
     (case client of
        None \<Rightarrow> []
      | Some c \<Rightarrow>
          if \<not> dt_match e then [Of_match_device]
          else if \<not> i2c_func_ok e
            then [Of_match_device, I2c_check_functionality, I2c_get_functionality]
          else (case kzalloc_result e of
                  None \<Rightarrow> [Of_match_device, I2c_check_functionality, Devm_kzalloc]
                | Some a \<Rightarrow>
                    if \<not> device_valid e
                    then [Of_match_device, I2c_check_functionality, Devm_kzalloc,
                          Fusb30x_SetChip, Fusb30x_GetChip, Mutex_init, Fusb_InitChipData,
                          I2c_set_clientdata, Fusb_IsDeviceValid]
                    else [Of_match_device, I2c_check_functionality, Devm_kzalloc,
                          Fusb30x_SetChip, Fusb30x_GetChip, Mutex_init, Fusb_InitChipData,
                          I2c_set_clientdata, Fusb_IsDeviceValid, Fusb_InitializeGPIO]))
   \<and> set (new_calls s (snd (fusb30x_probe client e s))) \<inter>
     {Fusb_InitializeWorkers, Fusb_InitializeTimer, Fusb_Sysfs_Init, Fusb_InitializeCore,
      Fusb_ScheduleWork, Fusb_StopTimers, Fusb_StopThreads, Fusb_GPIO_Cleanup} = {}
   \<and> ((client = None \<or> \<not> dt_match e \<or> \<not> i2c_func_ok e \<or> kzalloc_result e = None)
        \<and> g_chip (snd (fusb30x_probe client e s)) = g_chip s
        \<and> chips (snd (fusb30x_probe client e s)) = chips s
        \<and> clientdata (snd (fusb30x_probe client e s)) = clientdata s
      \<or> (\<exists>c a. client = Some c \<and> dt_match e \<and> i2c_func_ok e \<and> kzalloc_result e = Some a
            \<and> (\<not> device_valid e \<or> gpio_ret e \<noteq> 0)
            \<and> g_chip (snd (fusb30x_probe client e s)) = Some a
            \<and> chips (snd (fusb30x_probe client e s)) =
                (chips s)(a \<mapsto> \<lparr>chip_client = Some c, chip_lock = Mutex_Unlocked\<rparr>)
            \<and> clientdata (snd (fusb30x_probe client e s)) = (clientdata s)(c \<mapsto> a)))"
proof -
  assume fail: "fst (fusb30x_probe client e s) \<noteq> 0"
  let ?s' = "snd (fusb30x_probe client e s)"
  have state: "(client = None \<or> \<not> dt_match e \<or> \<not> i2c_func_ok e \<or> kzalloc_result e = None)
        \<and> g_chip ?s' = g_chip s \<and> chips ?s' = chips s \<and> clientdata ?s' = clientdata s
      \<or> (\<exists>c a. client = Some c \<and> dt_match e \<and> i2c_func_ok e \<and> kzalloc_result e = Some a
            \<and> (\<not> device_valid e \<or> gpio_ret e \<noteq> 0)
            \<and> g_chip ?s' = Some a
            \<and> chips ?s' = (chips s)(a \<mapsto> \<lparr>chip_client = Some c, chip_lock = Mutex_Unlocked\<rparr>)
            \<and> clientdata ?s' = (clientdata s)(c \<mapsto> a))"
  proof (cases "client = None \<or> \<not> dt_match e \<or> \<not> i2c_func_ok e \<or> kzalloc_result e = None")
    case True
    with probe_early_state [OF True, of s] show ?thesis
      by blast
  next
    case False
    then obtain c a where ca: "client = Some c" "dt_match e" "i2c_func_ok e"
        "kzalloc_result e = Some a"
      by auto
    from fail ca have "\<not> device_valid e \<or> gpio_ret e \<noteq> 0"
      by (auto simp: probe_ret)
    with probe_late_state [OF ca, of s] ca show ?thesis
      by blast
  qed
  from probe_failure_exact_calls [OF fail] probe_failure_calls [OF fail] state
  show ?thesis by (intro conjI)
qed

theorem probe_failure_no_unwind_witness:
  "fst (fusb30x_probe (Some 3) ((env_ok 8)\<lparr>kzalloc_result := None\<rparr>) init_state) \<noteq> 0
   \<and> new_calls init_state
        (snd (fusb30x_probe (Some 3) ((env_ok 8)\<lparr>kzalloc_result := None\<rparr>) init_state))
       = [Of_match_device, I2c_check_functionality, Devm_kzalloc]
   \<and> g_chip (snd (fusb30x_probe (Some 3) ((env_ok 8)\<lparr>kzalloc_result := None\<rparr>) init_state))
       = None
   \<and> fst (fusb30x_probe (Some 3) ((env_ok 8)\<lparr>device_valid := False\<rparr>) init_state) \<noteq> 0
   \<and> new_calls init_state
        (snd (fusb30x_probe (Some 3) ((env_ok 8)\<lparr>device_valid := False\<rparr>) init_state))
       = [Of_match_device, I2c_check_functionality, Devm_kzalloc,
          Fusb30x_SetChip, Fusb30x_GetChip, Mutex_init, Fusb_InitChipData,
          I2c_set_clientdata, Fusb_IsDeviceValid]
   \<and> g_chip (snd (fusb30x_probe (Some 3) ((env_ok 8)\<lparr>device_valid := False\<rparr>) init_state))
       = Some 8
   \<and> clientdata (snd (fusb30x_probe (Some 3) ((env_ok 8)\<lparr>device_valid := False\<rparr>) init_state)) 3
       = Some 8"
  using probe_failure_no_unwind [of "Some 3" "(env_ok 8)\<lparr>kzalloc_result := None\<rparr>" init_state]
        probe_failure_no_unwind [of "Some 3" "(env_ok 8)\<lparr>device_valid := False\<rparr>" init_state]
  by (simp add: probe_ret env_ok_def init_state_def EIO_def ENOMEM_def)

text \<open>
  C1 as stated fails when GPIO initialisation fails (here with -19): attach returns the
  error, and the global chip pointer, the chip structure with its initialised lock and
  the client's driver data are all left set, where before the call there was none.
\<close>

theorem probe_gpio_failure_counterexample:
  "fst (fusb30x_probe (Some 1) ((env_ok 5)\<lparr>gpio_ret := - 19\<rparr>) init_state) = - 19
   \<and> g_chip init_state = None
   \<and> g_chip (snd (fusb30x_probe (Some 1) ((env_ok 5)\<lparr>gpio_ret := - 19\<rparr>) init_state)) = Some 5
   \<and> chips init_state 5 = None
   \<and> chips (snd (fusb30x_probe (Some 1) ((env_ok 5)\<lparr>gpio_ret := - 19\<rparr>) init_state)) 5
       = Some \<lparr>chip_client = Some 1, chip_lock = Mutex_Unlocked\<rparr>
   \<and> clientdata init_state 1 = None
   \<and> clientdata (snd (fusb30x_probe (Some 1) ((env_ok 5)\<lparr>gpio_ret := - 19\<rparr>) init_state)) 1
       = Some 5
   \<and> new_calls init_state
        (snd (fusb30x_probe (Some 1) ((env_ok 5)\<lparr>gpio_ret := - 19\<rparr>) init_state))
       = [Of_match_device, I2c_check_functionality, Devm_kzalloc, Fusb30x_SetChip,
          Fusb30x_GetChip, Mutex_init, Fusb_InitChipData, I2c_set_clientdata,
          Fusb_IsDeviceValid, Fusb_InitializeGPIO]"
  by (simp add: probe_ret probe_g_chip probe_chips probe_clientdata probe_calls new_calls_def
        env_ok_def init_state_def)


text \<open>
  C8, as the source has it. When the identity check fails, attach returns \<^verbatim>\<open>-EIO\<close>
  right after the check, and nothing is undone: the chip structure allocated for the
  attempt stays, with its client and its initialised lock, and the global chip pointer
  and the client's driver data point to it.
\<close>

theorem probe_invalid_device:
  "client = Some c \<Longrightarrow> dt_match e \<Longrightarrow> i2c_func_ok e \<Longrightarrow> kzalloc_result e = Some a \<Longrightarrow>
   \<not> device_valid e \<Longrightarrow>
   fst (fusb30x_probe client e s) = - EIO
   \<and> new_calls s (snd (fusb30x_probe client e s)) =
       [Of_match_device, I2c_check_functionality, Devm_kzalloc, Fusb30x_SetChip,
        Fusb30x_GetChip, Mutex_init, Fusb_InitChipData, I2c_set_clientdata, Fusb_IsDeviceValid]
   \<and> g_chip (snd (fusb30x_probe client e s)) = Some a
   \<and> chips (snd (fusb30x_probe client e s)) a =
       Some \<lparr>chip_client = Some c, chip_lock = Mutex_Unlocked\<rparr>
   \<and> clientdata (snd (fusb30x_probe client e s)) c = Some a"
  by (simp add: probe_ret probe_calls probe_g_chip probe_chips probe_clientdata new_calls_def)

theorem probe_invalid_device_witness:
  "dt_match ((env_ok 9)\<lparr>device_valid := False\<rparr>)
   \<and> i2c_func_ok ((env_ok 9)\<lparr>device_valid := False\<rparr>)
   \<and> kzalloc_result ((env_ok 9)\<lparr>device_valid := False\<rparr>) = Some 9
   \<and> \<not> device_valid ((env_ok 9)\<lparr>device_valid := False\<rparr>)
   \<and> fst (fusb30x_probe (Some 4) ((env_ok 9)\<lparr>device_valid := False\<rparr>) init_state) = - 5
   \<and> g_chip (snd (fusb30x_probe (Some 4) ((env_ok 9)\<lparr>device_valid := False\<rparr>) init_state))
       = Some 9"
  using probe_invalid_device [of "Some 4" 4 "(env_ok 9)\<lparr>device_valid := False\<rparr>" 9 init_state]
  by (simp add: env_ok_def EIO_def)

text \<open>
  C8 as stated fails on a first attach whose identity check fails: afterwards a chip
  structure is allocated and registered, where before there was none.
\<close>

theorem probe_invalid_device_counterexample:
  "fst (fusb30x_probe (Some 1) ((env_ok 5)\<lparr>device_valid := False\<rparr>) init_state) = - 5
   \<and> dom (chips init_state) = {}
   \<and> dom (chips (snd (fusb30x_probe (Some 1) ((env_ok 5)\<lparr>device_valid := False\<rparr>) init_state)))
       = {5}
   \<and> g_chip (snd (fusb30x_probe (Some 1) ((env_ok 5)\<lparr>device_valid := False\<rparr>) init_state))
       = Some 5
   \<and> clientdata (snd (fusb30x_probe (Some 1) ((env_ok 5)\<lparr>device_valid := False\<rparr>) init_state)) 1
       = Some 5"
  by (simp add: probe_ret probe_g_chip probe_chips probe_clientdata env_ok_def init_state_def
        EIO_def)

subsection \<open>Attach: error codes\<close>

text \<open>
  C7, as the source has it. Each failure cause has its errno, but the errnos are three,
  not five: a null handle and a device-tree mismatch both give \<^verbatim>\<open>-EINVAL\<close>, a missing
  bus functionality and a failed identity check both give \<^verbatim>\<open>-EIO\<close>, a failed allocation
  gives \<^verbatim>\<open>-ENOMEM\<close>. The three values differ from each other and from 0.
\<close>

theorem probe_error_codes:
  "(client = None \<longrightarrow> fst (fusb30x_probe client e s) = - EINVAL)
   \<and> (client \<noteq> None \<and> \<not> dt_match e \<longrightarrow> fst (fusb30x_probe client e s) = - EINVAL)
   \<and> (client \<noteq> None \<and> dt_match e \<and> \<not> i2c_func_ok e \<longrightarrow>
        fst (fusb30x_probe client e s) = - EIO)
   \<and> (client \<noteq> None \<and> dt_match e \<and> i2c_func_ok e \<and> kzalloc_result e = None \<longrightarrow>
        fst (fusb30x_probe client e s) = - ENOMEM)
   \<and> (client \<noteq> None \<and> dt_match e \<and> i2c_func_ok e \<and> kzalloc_result e \<noteq> None
        \<and> \<not> device_valid e \<longrightarrow> fst (fusb30x_probe client e s) = - EIO)
   \<and> - EINVAL \<noteq> - EIO \<and> - EINVAL \<noteq> - ENOMEM \<and> - EIO \<noteq> - ENOMEM
   \<and> - EINVAL \<noteq> 0 \<and> - EIO \<noteq> 0 \<and> - ENOMEM \<noteq> 0"
  by (auto simp: probe_ret EINVAL_def EIO_def ENOMEM_def split: option.splits)

theorem probe_error_codes_witness:
  "fst (fusb30x_probe None (env_ok 5) init_state) = - 22
   \<and> fst (fusb30x_probe (Some 1) ((env_ok 5)\<lparr>dt_match := False\<rparr>) init_state) = - 22
   \<and> fst (fusb30x_probe (Some 1) ((env_ok 5)\<lparr>i2c_func_ok := False\<rparr>) init_state) = - 5
   \<and> fst (fusb30x_probe (Some 1) ((env_ok 5)\<lparr>kzalloc_result := None\<rparr>) init_state) = - 12
   \<and> fst (fusb30x_probe (Some 1) ((env_ok 5)\<lparr>device_valid := False\<rparr>) init_state) = - 5"
  using probe_error_codes [of None "env_ok 5" init_state]
        probe_error_codes [of "Some 1" "(env_ok 5)\<lparr>dt_match := False\<rparr>" init_state]
        probe_error_codes [of "Some 1" "(env_ok 5)\<lparr>i2c_func_ok := False\<rparr>" init_state]
        probe_error_codes [of "Some 1" "(env_ok 5)\<lparr>kzalloc_result := None\<rparr>" init_state]
        probe_error_codes [of "Some 1" "(env_ok 5)\<lparr>device_valid := False\<rparr>" init_state]
  by (simp add: env_ok_def EINVAL_def EIO_def ENOMEM_def)

text \<open>
  C7 as stated fails: the caller gets the same value for a null handle and for a
  device-tree mismatch, and the same value for a missing bus functionality and for a
  failed identity check.
\<close>

theorem probe_error_codes_counterexample:
  "fst (fusb30x_probe None (env_ok 5) init_state)
     = fst (fusb30x_probe (Some 1) ((env_ok 5)\<lparr>dt_match := False\<rparr>) init_state)
   \<and> fst (fusb30x_probe (Some 1) ((env_ok 5)\<lparr>i2c_func_ok := False\<rparr>) init_state)
     = fst (fusb30x_probe (Some 1) ((env_ok 5)\<lparr>device_valid := False\<rparr>) init_state)"
  by (simp add: probe_ret env_ok_def)

subsection \<open>Attach on a client that is already attached\<close>

text \<open>
  C2, as the source has it. There is no re-probe guard. When a client already has a
  chip structure registered and every check of a second attach passes, the second attach
  returns 0, allocates a second chip structure for the same client, and re-points the
  global chip pointer and the client's driver data to it. The memory of the first chip
  structure is not written, but nothing refers to it any more.
\<close>

theorem probe_reattach_not_refused:
  assumes "clientdata s c = Some a0" and "g_chip s = Some a0"
    and "chips s a0 = Some ch0" and "chip_client ch0 = Some c"
    and "dt_match e" and "i2c_func_ok e" and "kzalloc_result e = Some a"
    and "a \<notin> dom (chips s)" and "device_valid e" and "gpio_ret e = 0"
  shows "fst (fusb30x_probe (Some c) e s) = 0
         \<and> a \<noteq> a0
         \<and> g_chip (snd (fusb30x_probe (Some c) e s)) = Some a
         \<and> clientdata (snd (fusb30x_probe (Some c) e s)) c = Some a
         \<and> chips (snd (fusb30x_probe (Some c) e s)) a0 = Some ch0
         \<and> chips (snd (fusb30x_probe (Some c) e s)) a =
             Some \<lparr>chip_client = Some c, chip_lock = Mutex_Unlocked\<rparr>"
proof -
  from assms(3,8) have ne: "a \<noteq> a0" by auto
  from assms(5-7,9,10) have "fst (fusb30x_probe (Some c) e s) = 0"
    by (simp add: probe_ret)
  with probe_late_state [OF refl assms(5-7), of c s] ne assms(3) show ?thesis
    by simp
qed

theorem probe_reattach_not_refused_witness:
  "clientdata (snd (fusb30x_probe (Some 2) (env_ok 7) init_state)) 2 = Some 7
   \<and> g_chip (snd (fusb30x_probe (Some 2) (env_ok 7) init_state)) = Some 7
   \<and> chips (snd (fusb30x_probe (Some 2) (env_ok 7) init_state)) 7
       = Some \<lparr>chip_client = Some 2, chip_lock = Mutex_Unlocked\<rparr>
   \<and> 8 \<notin> dom (chips (snd (fusb30x_probe (Some 2) (env_ok 7) init_state)))
   \<and> fst (fusb30x_probe (Some 2) (env_ok 8) (snd (fusb30x_probe (Some 2) (env_ok 7) init_state)))
       = 0
   \<and> g_chip (snd (fusb30x_probe (Some 2) (env_ok 8)
         (snd (fusb30x_probe (Some 2) (env_ok 7) init_state)))) = Some 8"
proof -
  let ?s = "snd (fusb30x_probe (Some 2) (env_ok 7) init_state)"
  have h1: "clientdata ?s 2 = Some 7" and h2: "g_chip ?s = Some 7"
    and h3: "chips ?s 7 = Some \<lparr>chip_client = Some 2, chip_lock = Mutex_Unlocked\<rparr>"
    and h4: "chip_client \<lparr>chip_client = Some 2, chip_lock = Mutex_Unlocked\<rparr> = Some 2"
    and h8: "8 \<notin> dom (chips ?s)"
    by (simp_all add: probe_g_chip probe_chips probe_clientdata env_ok_def init_state_def)
  have h5: "dt_match (env_ok 8)" and h6: "i2c_func_ok (env_ok 8)"
    and h7: "kzalloc_result (env_ok 8) = Some 8" and h9: "device_valid (env_ok 8)"
    and h10: "gpio_ret (env_ok 8) = 0"
    by (simp_all add: env_ok_def)
  from probe_reattach_not_refused [OF h1 h2 h3 h4 h5 h6 h7 h8 h9 h10] h1 h2 h3 h8
  show ?thesis by simp
qed

text \<open>
  C2 as stated fails when the same client is attached twice: the second attach returns
  0, which is no error, the global chip pointer moves from the first chip structure to
  the second, and two chip structures of the one client exist.
\<close>

theorem probe_reattach_counterexample:
  "fst (fusb30x_probe (Some 1) (env_ok 6) (snd (fusb30x_probe (Some 1) (env_ok 5) init_state)))
     = 0
   \<and> g_chip (snd (fusb30x_probe (Some 1) (env_ok 5) init_state)) = Some 5
   \<and> g_chip (snd (fusb30x_probe (Some 1) (env_ok 6)
        (snd (fusb30x_probe (Some 1) (env_ok 5) init_state)))) = Some 6
   \<and> chips (snd (fusb30x_probe (Some 1) (env_ok 6)
        (snd (fusb30x_probe (Some 1) (env_ok 5) init_state)))) 5
       = Some \<lparr>chip_client = Some 1, chip_lock = Mutex_Unlocked\<rparr>
   \<and> chips (snd (fusb30x_probe (Some 1) (env_ok 6)
        (snd (fusb30x_probe (Some 1) (env_ok 5) init_state)))) 6
       = Some \<lparr>chip_client = Some 1, chip_lock = Mutex_Unlocked\<rparr>
   \<and> clientdata (snd (fusb30x_probe (Some 1) (env_ok 6)
        (snd (fusb30x_probe (Some 1) (env_ok 5) init_state)))) 1 = Some 6"
  by (simp add: probe_ret probe_g_chip probe_chips probe_clientdata env_ok_def init_state_def)

end
